theory Spec2Isabelle
  imports Complex_Main "HOL-Library.Product_Lexorder"
begin

section \<open>Gamification helpers (lib/gamification.ts)\<close>

text \<open>
  JavaScript numbers that hold XP totals, levels, thresholds and stat values are
  modelled as \<open>int\<close>: the columns behind them are SQL INTEGER, and on that range
  double arithmetic on integers is exact. \<open>Math.sqrt\<close> and \<open>/\<close> are the real-valued
  operations; \<open>Math.floor\<close> is \<open>floor\<close>. Percentages are \<open>real\<close>.
\<close>

definition calculateLevel :: "int \<Rightarrow> int" where
  "calculateLevel xp = (if xp < 0 then 1 else \<lfloor>sqrt (real_of_int xp / 100)\<rfloor> + 1)"

definition xpForNextLevel :: "int \<Rightarrow> int" where
  "xpForNextLevel currentLevel = (let nextLevel = currentLevel + 1 in (nextLevel - 1) ^ 2 * 100)"



text \<open>
  An executable integer square root, used to run \<open>calculateLevel\<close> on concrete
  inputs: \<open>isqrt n\<close> is the largest \<open>k\<close> with \<open>k * k \<le> n\<close>.
\<close>

fun isqrt_below :: "nat \<Rightarrow> nat \<Rightarrow> nat" where
  "isqrt_below n 0 = 0"
| "isqrt_below n (Suc k) = (if Suc k * Suc k \<le> n then Suc k else isqrt_below n k)"

definition isqrt :: "nat \<Rightarrow> nat" where
  "isqrt n = isqrt_below n n"

subsection \<open>calculateStreak\<close>

text \<open>
  Instants are milliseconds since the epoch, as \<open>Date.getTime()\<close> returns them. The
  clock read by \<open>new Date()\<close> is the parameter \<open>now\<close>. The argument \<open>lastActivity\<close>
  is declared \<open>Date | string\<close>: \<open>At t\<close> is a Date, or a string that parses to the
  instant \<open>t\<close>; \<open>Unparsable\<close> is an invalid Date or a string that does not parse
  (time value NaN, so every comparison with it is false); \<open>Absent\<close> is \<open>null\<close> or
  \<open>undefined\<close> arriving at run time against the declared type, on which
  \<open>lastDate.getTime()\<close> throws a TypeError. The optional \<open>currentStreak\<close> defaults
  to 0.
\<close>

datatype js_error = TypeError

datatype last_activity = At int | Unparsable | Absent

record streak_result =
  streak :: int
  broken :: bool

definition calculateStreak :: "int \<Rightarrow> last_activity \<Rightarrow> int option \<Rightarrow> js_error + streak_result" where
  "calculateStreak now lastActivity currentStreakArg =
     (let currentStreak = (case currentStreakArg of None \<Rightarrow> 0 | Some s \<Rightarrow> s) in
      case lastActivity of
        Absent \<Rightarrow> Inl TypeError
      | Unparsable \<Rightarrow> Inr \<lparr>streak = 1, broken = True\<rparr>
      | At lastDate \<Rightarrow>
          (let hoursSince = real_of_int (now - lastDate) / (1000 * 60 * 60) in
           if hoursSince < 24 then Inr \<lparr>streak = currentStreak, broken = False\<rparr>
           else if hoursSince < 48 then Inr \<lparr>streak = currentStreak + 1, broken = False\<rparr>
           else Inr \<lparr>streak = 1, broken = True\<rparr>))"

subsection \<open>checkBadgeCriteria\<close>


section \<open>Database schema and functions (initial migration)\<close>

text \<open>
  Rows of \<open>users\<close> carry the columns the progression functions read and write. The
  table is the list of its rows. A failing statement aborts the call and rolls back:
  the error result carries no table, the caller keeps the one it had. Column values
  are not NULL (the columns default to 0 and 1 and no statement here writes NULL);
  the variables of \<open>award_xp\<close> are NULL when its SELECT finds no row.
\<close>

type_synonym uuid = string
type_synonym instant = int

datatype pg_error = IntegerOutOfRange | SqrtOfNegative | CheckViolation | UniqueViolation

record user_row =
  u_id :: uuid
  u_xp :: int
  u_streak :: int
  u_current_level :: int
  u_created_at :: instant
  u_updated_at :: instant

definition int4_range :: "int \<Rightarrow> bool" where
  "int4_range n = (- 2147483648 \<le> n \<and> n \<le> 2147483647)"

text \<open>The CHECK constraints of \<open>users\<close>.\<close>

definition users_check :: "user_row \<Rightarrow> bool" where
  "users_check r = (u_xp r \<ge> 0 \<and> u_streak r \<ge> 0 \<and> u_current_level r \<ge> 1)"

text \<open>\<open>calculate_level\<close>: SQRT of a negative numeric raises an error.\<close>

definition calculate_level :: "int \<Rightarrow> pg_error + int" where
  "calculate_level xp =
     (if real_of_int xp / 100 < 0 then Inl SqrtOfNegative
      else Inr (\<lfloor>sqrt (real_of_int xp / 100)\<rfloor> + 1))"

definition xp_for_next_level :: "int \<Rightarrow> int" where
  "xp_for_next_level current_level = current_level * current_level * 100"

text \<open>
  \<open>award_xp\<close> is two statements on the table: the SELECT INTO that reads the old XP
  and level (\<open>select_xp_level\<close>), and, after the new values are computed in local
  variables, the single UPDATE that writes XP, level and \<open>updated_at\<close> of the row
  (\<open>update_xp_level\<close>: the SET clause is \<open>set_xp_level\<close>, the CHECK constraints are
  tested on the rows it wrote). \<open>award_finish\<close> is everything after the SELECT.
\<close>

record award_result =
  new_xp :: "int option"
  new_level :: "int option"
  leveled_up :: "bool option"

definition select_xp_level :: "user_row list \<Rightarrow> uuid \<Rightarrow> (int \<times> int) option" where
  "select_xp_level users p_user_id =
     map_option (\<lambda>r. (u_xp r, u_current_level r)) (find (\<lambda>r. u_id r = p_user_id) users)"

definition set_xp_level :: "instant \<Rightarrow> uuid \<Rightarrow> int \<Rightarrow> int \<Rightarrow> user_row list \<Rightarrow> user_row list" where
  "set_xp_level now p_user_id v_new_xp v_new_level users =
     map (\<lambda>r. if u_id r = p_user_id
              then r\<lparr>u_xp := v_new_xp, u_current_level := v_new_level, u_updated_at := now\<rparr>
              else r) users"

definition update_xp_level ::
    "instant \<Rightarrow> user_row list \<Rightarrow> uuid \<Rightarrow> int \<Rightarrow> int \<Rightarrow> pg_error + user_row list" where
  "update_xp_level now users p_user_id v_new_xp v_new_level =
     (let users' = set_xp_level now p_user_id v_new_xp v_new_level users
      in if list_all users_check (filter (\<lambda>r. u_id r = p_user_id) users')
         then Inr users' else Inl CheckViolation)"

definition award_finish ::
    "instant \<Rightarrow> user_row list \<Rightarrow> uuid \<Rightarrow> int \<Rightarrow> (int \<times> int) option
       \<Rightarrow> pg_error + (award_result \<times> user_row list)" where
  "award_finish now users p_user_id p_xp_amount selected =
     (case selected of
        None \<Rightarrow> Inr (\<lparr>new_xp = None, new_level = None, leveled_up = None\<rparr>, users)
      | Some (v_old_xp, v_old_level) \<Rightarrow>
          (let v_new_xp = v_old_xp + p_xp_amount in
           if \<not> int4_range v_new_xp then Inl IntegerOutOfRange
           else case calculate_level v_new_xp of
                  Inl e \<Rightarrow> Inl e
                | Inr v_new_level \<Rightarrow>
                    (case update_xp_level now users p_user_id v_new_xp v_new_level of
                       Inl e \<Rightarrow> Inl e
                     | Inr users' \<Rightarrow>
                         Inr (\<lparr>new_xp = Some v_new_xp, new_level = Some v_new_level,
                               leveled_up = Some (v_new_level > v_old_level)\<rparr>, users'))))"

definition award_xp ::
    "instant \<Rightarrow> user_row list \<Rightarrow> uuid \<Rightarrow> int \<Rightarrow> pg_error + (award_result \<times> user_row list)" where
  "award_xp now users p_user_id p_xp_amount =
     award_finish now users p_user_id p_xp_amount (select_xp_level users p_user_id)"

subsection \<open>Concurrent calls of award_xp\<close>

text \<open>
  The function takes no lock (no FOR UPDATE, no \<open>SET xp = xp + amount\<close>) and runs
  at the database's default isolation, where each statement sees the rows committed
  before it starts. A call in progress is therefore in one of three states: not yet
  started, past its SELECT with the values it read, or returned. A schedule names, step
  by step, which call executes its next statement.
\<close>

datatype award_call =
  Pending uuid int
| Selected uuid int "(int \<times> int) option"
| Returned "pg_error + award_result"

fun award_step :: "instant \<Rightarrow> user_row list \<Rightarrow> award_call \<Rightarrow> user_row list \<times> award_call" where
  "award_step now users (Pending p_user_id p_xp_amount) =
     (users, Selected p_user_id p_xp_amount (select_xp_level users p_user_id))"
| "award_step now users (Selected p_user_id p_xp_amount selected) =
     (case award_finish now users p_user_id p_xp_amount selected of
        Inl e \<Rightarrow> (users, Returned (Inl e))
      | Inr (res, users') \<Rightarrow> (users', Returned (Inr res)))"
| "award_step now users (Returned r) = (users, Returned r)"

fun run_schedule ::
    "instant \<Rightarrow> nat list \<Rightarrow> user_row list \<times> award_call list \<Rightarrow> user_row list \<times> award_call list" where
  "run_schedule now [] cfg = cfg"
| "run_schedule now (i # schedule) (users, calls) =
     (if i < length calls
      then (case award_step now users (calls ! i) of
              (users', c') \<Rightarrow> run_schedule now schedule (users', calls[i := c']))
      else run_schedule now schedule (users, calls))"

text \<open>
  The schedule that runs the calls \<open>k, ..., k + n - 1\<close> one after the other, each
  through both of its statements before the next one starts.
\<close>

definition sequential_schedule :: "nat \<Rightarrow> nat \<Rightarrow> nat list" where
  "sequential_schedule k n = concat (map (\<lambda>i. [i, i]) [k..<k + n])"

subsection \<open>Badge awards\<close>

text \<open>
  \<open>user_badges\<close> has PRIMARY KEY (user_id, badge_id): an INSERT of a row whose key is
  in the table fails with a unique violation and leaves the table as it was.
\<close>

record user_badge_row =
  ub_user_id :: uuid
  ub_badge_id :: uuid
  ub_earned_at :: instant

definition insert_user_badge ::
    "user_badge_row list \<Rightarrow> user_badge_row \<Rightarrow> pg_error option \<times> user_badge_row list" where
  "insert_user_badge user_badges new_row =
     (if (ub_user_id new_row, ub_badge_id new_row)
           \<in> set (map (\<lambda>r. (ub_user_id r, ub_badge_id r)) user_badges)
      then (Some UniqueViolation, user_badges)
      else (None, user_badges @ [new_row]))"

definition award_count :: "user_badge_row list \<Rightarrow> uuid \<Rightarrow> uuid \<Rightarrow> nat" where
  "award_count user_badges user_id badge_id =
     length (filter (\<lambda>r. ub_user_id r = user_id \<and> ub_badge_id r = badge_id) user_badges)"

section \<open>Badge eligibility (API module)\<close>

text \<open>
  \<open>checkBadgeEligibility\<close> reads the user with the awards held at that moment
  (\<open>uv_user_badges\<close>), then walks the catalog: a badge found in that snapshot is
  skipped, an eligible one is inserted into the table with a plain INSERT and pushed
  onto \<open>newBadges\<close>. The client returns a failed statement as an \<open>error\<close> field of
  its result and throws nothing; the result of the INSERT is not looked at. The table
  is threaded separately from the snapshot, so that it may already hold an award the
  snapshot does not show.
\<close>

record criteria =
  c_type :: string
  c_count :: int

record badge =
  b_id :: uuid
  b_criteria :: criteria

record user_view =
  uv_xp :: int
  uv_streak :: int
  uv_user_lessons :: "bool list"
  uv_user_badges :: "user_badge_row list"

definition evaluateCriteria :: "criteria \<Rightarrow> user_view \<Rightarrow> bool" where
  "evaluateCriteria crit user =
     (if c_type crit = ''lessons_completed''
      then int (length (filter (\<lambda>completed. completed) (uv_user_lessons user))) \<ge> c_count crit
      else if c_type crit = ''streak'' then uv_streak user \<ge> c_count crit
      else if c_type crit = ''xp'' then uv_xp user \<ge> c_count crit
      else False)"

fun checkBadgeEligibility_loop ::
    "instant \<Rightarrow> uuid \<Rightarrow> user_view \<Rightarrow> badge list \<Rightarrow> user_badge_row list \<Rightarrow> badge list
       \<Rightarrow> badge list \<times> user_badge_row list" where
  "checkBadgeEligibility_loop now userId user [] user_badges newBadges = (newBadges, user_badges)"
| "checkBadgeEligibility_loop now userId user (b # allBadges) user_badges newBadges =
     (let alreadyEarned = list_ex (\<lambda>ub. ub_badge_id ub = b_id b) (uv_user_badges user) in
      if alreadyEarned then checkBadgeEligibility_loop now userId user allBadges user_badges newBadges
      else if evaluateCriteria (b_criteria b) user
      then checkBadgeEligibility_loop now userId user allBadges
             (snd (insert_user_badge user_badges
                     \<lparr>ub_user_id = userId, ub_badge_id = b_id b, ub_earned_at = now\<rparr>))
             (newBadges @ [b])
      else checkBadgeEligibility_loop now userId user allBadges user_badges newBadges)"

definition checkBadgeEligibility ::
    "instant \<Rightarrow> uuid \<Rightarrow> user_view \<Rightarrow> badge list \<Rightarrow> user_badge_row list
       \<Rightarrow> badge list \<times> user_badge_row list" where
  "checkBadgeEligibility now userId user allBadges user_badges =
     checkBadgeEligibility_loop now userId user allBadges user_badges []"

section \<open>Leaderboard\<close>

text \<open>
  The route GET /api/v1/leaderboard computes the caller's rank as the number of users
  with strictly more XP, plus one; a caller without a profile row counts as 0 XP. The
  ranks of the listed users are their positions in the page (pages count from 1). The
  \<open>leaderboard\<close> view numbers the rows in the order (xp descending, created_at
  ascending) and keeps 100. \<open>users\<close> is the list of rows the queries see.
\<close>

definition current_user_rank :: "user_row list \<Rightarrow> uuid \<Rightarrow> nat" where
  "current_user_rank users user_id =
     (let userProfile = find (\<lambda>u. u_id u = user_id) users;
          my_xp = (case userProfile of None \<Rightarrow> 0 | Some u \<Rightarrow> if u_xp u = 0 then 0 else u_xp u);
          count = length (filter (\<lambda>u. u_xp u > my_xp) users)
      in count + 1)"

text \<open>
  The page query orders by XP descending and nothing else: any ordering of the rows
  that is descending in XP may come back.
\<close>

definition ordered_by_xp_desc :: "user_row list \<Rightarrow> user_row list \<Rightarrow> bool" where
  "ordered_by_xp_desc users result =
     (length result = length users \<and> set result = set users
      \<and> sorted_wrt (\<lambda>a b. u_xp a \<ge> u_xp b) result)"

definition leaderboard_page :: "user_row list \<Rightarrow> nat \<Rightarrow> nat \<Rightarrow> (nat \<times> uuid) list" where
  "leaderboard_page ordered page limit =
     (let rows = take limit (drop ((page - 1) * limit) ordered)
      in map (\<lambda>(index, u). ((page - 1) * limit + index + 1, u_id u))
           (zip [0..<length rows] rows))"

definition leaderboard_view :: "user_row list \<Rightarrow> (nat \<times> uuid) list" where
  "leaderboard_view users =
     (let numbered = sort_key (\<lambda>u. (- u_xp u, u_created_at u)) users
      in take 100 (map (\<lambda>(index, u). (index + 1, u_id u)) (zip [0..<length numbered] numbered)))"

text \<open>
  The accounts of the ranking example: A and B with 500 points, A created before B, and
  C with 700 points.
\<close>

definition acct_A :: user_row where
  "acct_A = \<lparr>u_id = ''A'', u_xp = 500, u_streak = 0, u_current_level = 3,
              u_created_at = 1, u_updated_at = 1\<rparr>"

definition acct_B :: user_row where
  "acct_B = \<lparr>u_id = ''B'', u_xp = 500, u_streak = 0, u_current_level = 3,
              u_created_at = 2, u_updated_at = 2\<rparr>"

definition acct_C :: user_row where
  "acct_C = \<lparr>u_id = ''C'', u_xp = 700, u_streak = 0, u_current_level = 3,
              u_created_at = 3, u_updated_at = 3\<rparr>"

section \<open>The level function\<close>

lemma isqrt_below_le: "isqrt_below n k * isqrt_below n k \<le> n"
  by (induction k) auto

lemma isqrt_below_max: "j \<le> k \<Longrightarrow> j * j \<le> n \<Longrightarrow> j \<le> isqrt_below n k"
proof (induction k)
  case 0
  then show ?case by simp
next
  case (Suc k)
  show ?case
  proof (cases "Suc k * Suc k \<le> n")
    case True
    with Suc.prems show ?thesis by simp
  next
    case False
    with Suc.prems have "j \<le> k" by (cases "j = Suc k") auto
    with Suc False show ?thesis by simp
  qed
qed

lemma isqrt_le: "isqrt n * isqrt n \<le> n"
  by (simp add: isqrt_def isqrt_below_le)

lemma isqrt_max: "j * j \<le> n \<Longrightarrow> j \<le> isqrt n"
proof -
  assume h: "j * j \<le> n"
  have "j \<le> j * j" by (cases j) auto
  with h have "j \<le> n" by linarith
  with h show ?thesis by (simp add: isqrt_def isqrt_below_max)
qed

lemma isqrt_gt: "n < Suc (isqrt n) * Suc (isqrt n)"
proof (rule ccontr)
  assume "\<not> n < Suc (isqrt n) * Suc (isqrt n)"
  then have "Suc (isqrt n) * Suc (isqrt n) \<le> n" by simp
  then have "Suc (isqrt n) \<le> isqrt n" by (rule isqrt_max)
  then show False by simp
qed




text \<open>
  The floor of the real square root of \<open>x / 100\<close> is the integer square root of
  \<open>x div 100\<close>.
\<close>

lemma floor_sqrt_div_100:
  assumes "0 \<le> x"
  shows "\<lfloor>sqrt (real_of_int x / 100)\<rfloor> = int (isqrt (nat (x div 100)))"
proof -
  define k where "k = int (isqrt (nat (x div 100)))"
  have k0: "0 \<le> k" by (simp add: k_def)
  have d0: "0 \<le> x div 100" using assms by (simp add: pos_imp_zdiv_nonneg_iff)
  have "int (isqrt (nat (x div 100)) * isqrt (nat (x div 100))) \<le> int (nat (x div 100))"
    using isqrt_le[of "nat (x div 100)"] by (simp only: of_nat_le_iff)
  then have lo: "k * k \<le> x div 100" using d0 by (simp add: k_def)
  have "int (nat (x div 100)) < int (Suc (isqrt (nat (x div 100))) * Suc (isqrt (nat (x div 100))))"
    using isqrt_gt[of "nat (x div 100)"] by (simp only: of_nat_less_iff)
  then have hi: "x div 100 < (k + 1) * (k + 1)" using d0 by (simp add: k_def algebra_simps)
  from lo have lo': "100 * (k * k) \<le> x" by linarith
  from hi have hi': "x < 100 * ((k + 1) * (k + 1))" by linarith
  have a: "real_of_int k \<le> sqrt (real_of_int x / 100)"
  proof (rule real_le_rsqrt)
    have "real_of_int (100 * (k * k)) \<le> real_of_int x" using lo' by (simp only: of_int_le_iff)
    then show "(real_of_int k)\<^sup>2 \<le> real_of_int x / 100" by (simp add: power2_eq_square)
  qed
  have b: "sqrt (real_of_int x / 100) < real_of_int k + 1"
  proof (rule real_less_lsqrt)
    show "0 \<le> real_of_int k + 1" using k0 by simp
    have "real_of_int x < real_of_int (100 * ((k + 1) * (k + 1)))"
      using hi' by (simp only: of_int_less_iff)
    then show "real_of_int x / 100 < (real_of_int k + 1)\<^sup>2"
      by (simp add: power2_eq_square algebra_simps)
  qed
  show ?thesis using a b unfolding k_def[symmetric] by (simp add: floor_eq_iff)
qed

lemma calculateLevel_code [code]:
  "calculateLevel xp = (if xp < 0 then 1 else int (isqrt (nat (xp div 100))) + 1)"
  by (simp add: calculateLevel_def floor_sqrt_div_100)

lemma calculate_level_code [code]:
  "calculate_level xp =
     (if xp < 0 then Inl SqrtOfNegative else Inr (int (isqrt (nat (xp div 100))) + 1))"
  by (simp add: calculate_level_def floor_sqrt_div_100)

lemma calculate_level_nonneg: "0 \<le> xp \<Longrightarrow> calculate_level xp = Inr (calculateLevel xp)"
  by (simp add: calculate_level_def calculateLevel_def)

lemma calculateLevel_ge_1: "1 \<le> calculateLevel xp"
  by (simp add: calculateLevel_code)






text \<open>
  C7, as the code has it. For negative points \<open>calculateLevel\<close> returns level 1, the
  level of an account with no points: the guard \<open>if (xp < 0) return 1\<close> clamps. Only
  the database function \<open>calculate_level\<close> fails on them, with the error of SQRT.
\<close>

theorem calculateLevel_negative_clamps:
  "xp < 0 \<Longrightarrow> calculateLevel xp = 1 \<and> calculate_level xp = Inl SqrtOfNegative"
  by (simp add: calculateLevel_def calculate_level_def)

theorem calculateLevel_negative_clamps_witness:
  "(-5::int) < 0 \<and> calculateLevel (-5) = 1 \<and> calculate_level (-5) = Inl SqrtOfNegative"
  using calculateLevel_negative_clamps[of "-5"] by simp

text \<open>The claim as stated fails: -5 points are given the level of 0 points.\<close>

theorem calculateLevel_negative_counterexample:
  "calculateLevel (-5) = 1 \<and> calculateLevel (-5) = calculateLevel 0"
  by (simp add: calculateLevel_def)




section \<open>The streak resolver\<close>

text \<open>
  C3, as the code has it. With \<open>d\<close> the milliseconds between the stored last activity
  and now: under 24 hours the streak is returned unchanged, from 24 to under 48 hours
  it is incremented, from 48 hours on it is 1. The flag returned is \<open>broken\<close>, true
  only in the last case; there is no flag saying that the streak changed. An absent
  last activity is no case of the function: it raises a TypeError. A date that does
  not parse gives streak 1 with \<open>broken\<close> true. A call without \<open>currentStreak\<close>
  is a call with 0.
\<close>

theorem calculateStreak_cases:
  "(now - lastDate < 24 * 3600000 \<longrightarrow>
      calculateStreak now (At lastDate) (Some currentStreak)
        = Inr \<lparr>streak = currentStreak, broken = False\<rparr>)
   \<and> (24 * 3600000 \<le> now - lastDate \<and> now - lastDate < 48 * 3600000 \<longrightarrow>
      calculateStreak now (At lastDate) (Some currentStreak)
        = Inr \<lparr>streak = currentStreak + 1, broken = False\<rparr>)
   \<and> (48 * 3600000 \<le> now - lastDate \<longrightarrow>
      calculateStreak now (At lastDate) (Some currentStreak) = Inr \<lparr>streak = 1, broken = True\<rparr>)
   \<and> calculateStreak now Absent (Some currentStreak) = Inl TypeError
   \<and> calculateStreak now Unparsable (Some currentStreak) = Inr \<lparr>streak = 1, broken = True\<rparr>
   \<and> calculateStreak now lastActivity None = calculateStreak now lastActivity (Some 0)"
  by (simp add: calculateStreak_def Let_def)

theorem calculateStreak_cases_witness:
  "calculateStreak (10 * 3600000) (At 0) (Some 5) = Inr \<lparr>streak = 5, broken = False\<rparr>
   \<and> calculateStreak (30 * 3600000) (At 0) (Some 5) = Inr \<lparr>streak = 6, broken = False\<rparr>
   \<and> calculateStreak (50 * 3600000) (At 0) (Some 5) = Inr \<lparr>streak = 1, broken = True\<rparr>
   \<and> calculateStreak 0 Absent (Some 5) = Inl TypeError"
  using calculateStreak_cases[of "10 * 3600000" 0 5] calculateStreak_cases[of "30 * 3600000" 0 5]
    calculateStreak_cases[of "50 * 3600000" 0 5] calculateStreak_cases[of 0 0 5]
  by simp

text \<open>
  The claim as stated fails twice: 30 hours after the last activity the only flag
  returned is false, and without a last activity no streak is returned at all.
\<close>

theorem calculateStreak_counterexample:
  "calculateStreak (30 * 3600000) (At 0) (Some 5) = Inr \<lparr>streak = 6, broken = False\<rparr>
   \<and> calculateStreak (30 * 3600000) Absent (Some 5) = Inl TypeError
   \<and> calculateStreak (30 * 3600000) Absent None \<noteq> Inr \<lparr>streak = 1, broken = True\<rparr>"
  by (simp add: calculateStreak_def Let_def)

section \<open>Badge criteria\<close>



section \<open>The ledger write award_xp\<close>

lemma find_update_row:
  assumes "\<And>r. u_id (f r) = u_id r"
  shows "find (\<lambda>r. u_id r = uid) (map (\<lambda>r. if u_id r = uid then f r else r) users)
         = map_option f (find (\<lambda>r. u_id r = uid) users)"
  using assms by (induction users) auto

lemma find_Some_set: "find P xs = Some x \<Longrightarrow> x \<in> set xs \<and> P x"
  by (induction xs) (auto split: if_splits)

lemma update_xp_level_ok:
  assumes "list_all users_check users" and "0 \<le> x" and "1 \<le> l"
  shows "update_xp_level now users uid x l = Inr (set_xp_level now uid x l users)"
proof -
  have "list_all users_check (filter (\<lambda>r. u_id r = uid) (set_xp_level now uid x l users))"
    using assms by (induction users) (auto simp: set_xp_level_def users_check_def)
  then show ?thesis by (simp add: update_xp_level_def Let_def)
qed

lemma award_xp_ok:
  assumes f: "find (\<lambda>r. u_id r = uid) users = Some row"
      and c: "list_all users_check users"
      and lo: "0 \<le> u_xp row + amount" and hi: "u_xp row + amount \<le> 2147483647"
  shows "award_xp now users uid amount =
           Inr (\<lparr>new_xp = Some (u_xp row + amount),
                 new_level = Some (calculateLevel (u_xp row + amount)),
                 leveled_up = Some (calculateLevel (u_xp row + amount) > u_current_level row)\<rparr>,
                set_xp_level now uid (u_xp row + amount) (calculateLevel (u_xp row + amount)) users)"
proof -
  have r: "int4_range (u_xp row + amount)" using lo hi by (simp add: int4_range_def)
  have u: "update_xp_level now users uid (u_xp row + amount) (calculateLevel (u_xp row + amount))
        = Inr (set_xp_level now uid (u_xp row + amount) (calculateLevel (u_xp row + amount)) users)"
    using c lo calculateLevel_ge_1 by (rule update_xp_level_ok)
  show ?thesis
    using f r u lo
    by (simp add: award_xp_def award_finish_def select_xp_level_def Let_def calculate_level_nonneg)
qed

lemma award_xp_fails:
  assumes f: "find (\<lambda>r. u_id r = uid) users = Some row"
      and bad: "u_xp row + amount < 0 \<or> 2147483647 < u_xp row + amount"
  shows "\<exists>e. award_xp now users uid amount = Inl e"
  using f bad
  by (auto simp: award_xp_def award_finish_def select_xp_level_def Let_def int4_range_def calculate_level_def)

lemma set_xp_level_find:
  "find (\<lambda>r. u_id r = uid) users = Some row \<Longrightarrow>
   find (\<lambda>r. u_id r = uid) (set_xp_level now uid x l users)
     = Some (row\<lparr>u_xp := x, u_current_level := l, u_updated_at := now\<rparr>)"
  unfolding set_xp_level_def by (subst find_update_row) auto

lemma set_xp_level_check:
  "list_all users_check users \<Longrightarrow> 0 \<le> x \<Longrightarrow> 1 \<le> l \<Longrightarrow>
   list_all users_check (set_xp_level now uid x l users)"
  by (induction users) (auto simp: set_xp_level_def users_check_def)


lemma calculateLevel_values:
  "calculateLevel 0 = 1" "calculateLevel 10 = 1" "calculateLevel 20 = 1"
  "calculateLevel 400 = 3" "calculateLevel 500 = 3"
  by (simp_all add: calculateLevel_code isqrt_def eval_nat_numeral)



text \<open>
  C6, as the code has it. \<open>award_xp\<close> does not look at the sign of the amount. A
  negative amount that leaves the total non-negative is applied: the call succeeds and
  the account's points go down. The call fails, writing nothing, only when the total
  would become negative.
\<close>

theorem award_xp_negative_amount:
  assumes "find (\<lambda>r. u_id r = p_user_id) users = Some row"
      and "list_all users_check users"
      and "u_xp row \<le> 2147483647"
      and "p_xp_amount < 0"
  shows "(0 \<le> u_xp row + p_xp_amount \<longrightarrow>
            (\<exists>res users'. award_xp now users p_user_id p_xp_amount = Inr (res, users')
               \<and> new_xp res = Some (u_xp row + p_xp_amount)
               \<and> select_xp_level users' p_user_id
                    = Some (u_xp row + p_xp_amount, calculateLevel (u_xp row + p_xp_amount))
               \<and> u_xp row + p_xp_amount < u_xp row))
       \<and> (u_xp row + p_xp_amount < 0 \<longrightarrow>
            (\<exists>e. award_xp now users p_user_id p_xp_amount = Inl e))"
proof (intro conjI impI)
  assume lo: "0 \<le> u_xp row + p_xp_amount"
  have hi: "u_xp row + p_xp_amount \<le> 2147483647" using assms(3,4) by simp
  let ?x = "u_xp row + p_xp_amount"
  have "award_xp now users p_user_id p_xp_amount =
           Inr (\<lparr>new_xp = Some ?x, new_level = Some (calculateLevel ?x),
                 leveled_up = Some (calculateLevel ?x > u_current_level row)\<rparr>,
                set_xp_level now p_user_id ?x (calculateLevel ?x) users)"
    using assms(1,2) lo hi by (rule award_xp_ok)
  moreover have "select_xp_level (set_xp_level now p_user_id ?x (calculateLevel ?x) users) p_user_id
      = Some (?x, calculateLevel ?x)"
    using set_xp_level_find[OF assms(1)] by (simp add: select_xp_level_def)
  ultimately show "\<exists>res users'. award_xp now users p_user_id p_xp_amount = Inr (res, users')
               \<and> new_xp res = Some ?x
               \<and> select_xp_level users' p_user_id = Some (?x, calculateLevel ?x)
               \<and> ?x < u_xp row"
    using assms(4) by simp
next
  assume "u_xp row + p_xp_amount < 0"
  then show "\<exists>e. award_xp now users p_user_id p_xp_amount = Inl e"
    using assms(1) by (intro award_xp_fails) auto
qed

theorem award_xp_negative_amount_witness:
  "(\<exists>res users'. award_xp 9 [\<lparr>u_id = ''A'', u_xp = 500, u_streak = 0, u_current_level = 3,
                 u_created_at = 1, u_updated_at = 1\<rparr>] ''A'' (-100) = Inr (res, users')
       \<and> new_xp res = Some 400 \<and> select_xp_level users' ''A'' = Some (400, 3))
   \<and> (\<exists>e. award_xp 9 [\<lparr>u_id = ''A'', u_xp = 500, u_streak = 0, u_current_level = 3,
                 u_created_at = 1, u_updated_at = 1\<rparr>] ''A'' (-600) = Inl e)"
  using award_xp_negative_amount[of "''A''"
      "[\<lparr>u_id = ''A'', u_xp = 500, u_streak = 0, u_current_level = 3,
         u_created_at = 1, u_updated_at = 1\<rparr>]"
      "\<lparr>u_id = ''A'', u_xp = 500, u_streak = 0, u_current_level = 3,
         u_created_at = 1, u_updated_at = 1\<rparr>" "-100" 9]
    award_xp_negative_amount[of "''A''"
      "[\<lparr>u_id = ''A'', u_xp = 500, u_streak = 0, u_current_level = 3,
         u_created_at = 1, u_updated_at = 1\<rparr>]"
      "\<lparr>u_id = ''A'', u_xp = 500, u_streak = 0, u_current_level = 3,
         u_created_at = 1, u_updated_at = 1\<rparr>" "-600" 9]
  by (simp add: users_check_def calculateLevel_values)

text \<open>
  The claim as stated fails: an award of -100 to an account with 500 points succeeds
  and leaves it with 400.
\<close>

theorem award_xp_negative_counterexample:
  "award_xp 9 [\<lparr>u_id = ''A'', u_xp = 500, u_streak = 0, u_current_level = 3,
                 u_created_at = 1, u_updated_at = 1\<rparr>] ''A'' (-100)
     = Inr (\<lparr>new_xp = Some 400, new_level = Some 3, leveled_up = Some False\<rparr>,
            [\<lparr>u_id = ''A'', u_xp = 400, u_streak = 0, u_current_level = 3,
              u_created_at = 1, u_updated_at = 9\<rparr>])"
  by code_simp

lemma sequential_schedule_Suc:
  "sequential_schedule k (Suc n) = k # k # sequential_schedule (Suc k) n"
proof -
  have "[k..<k + Suc n] = k # [Suc k..<Suc k + n]" by (subst upt_rec) simp
  then show ?thesis by (simp only: sequential_schedule_def list.map concat.simps append_Cons append_Nil)
qed

lemma award_steps_are_award_xp:
  "award_step now (fst (award_step now users (Pending uid a))) (snd (award_step now users (Pending uid a)))
     = (case award_xp now users uid a of
          Inl e \<Rightarrow> (users, Returned (Inl e))
        | Inr (res, users') \<Rightarrow> (users', Returned (Inr res)))"
  by (simp add: award_xp_def)

lemma run_sequential:
  assumes "find (\<lambda>r. u_id r = uid) users = Some row"
      and "list_all users_check users"
      and "u_current_level row = calculateLevel (u_xp row)"
      and "\<forall>a \<in> set amounts. 0 \<le> a"
      and "u_xp row + sum_list amounts \<le> 2147483647"
  shows "\<exists>users' finished.
           run_schedule now (sequential_schedule (length done) (length amounts))
               (users, done @ map (Pending uid) amounts) = (users', done @ finished)
           \<and> length finished = length amounts
           \<and> (\<forall>c \<in> set finished. \<exists>res. c = Returned (Inr res))
           \<and> select_xp_level users' uid
               = Some (u_xp row + sum_list amounts, calculateLevel (u_xp row + sum_list amounts))"
  using assms
proof (induction amounts arbitrary: users row "done")
  case Nil
  then show ?case by (simp add: select_xp_level_def sequential_schedule_def)
next
  case (Cons a amounts)
  let ?k = "length done"
  let ?x = "u_xp row + a"
  let ?users1 = "set_xp_level now uid ?x (calculateLevel ?x) users"
  let ?row1 = "row\<lparr>u_xp := ?x, u_current_level := calculateLevel ?x, u_updated_at := now\<rparr>"
  let ?res = "\<lparr>new_xp = Some ?x, new_level = Some (calculateLevel ?x),
            leveled_up = Some (calculateLevel ?x > u_current_level row)\<rparr>"
  have rc: "users_check row"
    using Cons.prems(1,2) find_Some_set[of "\<lambda>r. u_id r = uid" users row]
    by (auto simp: list_all_iff)
  then have x0: "0 \<le> u_xp row" by (simp add: users_check_def)
  have a0: "0 \<le> a" and r0: "\<forall>a \<in> set amounts. 0 \<le> a" using Cons.prems(4) by auto
  from r0 have s0: "0 \<le> sum_list amounts" by (simp add: sum_list_nonneg)
  have lo: "0 \<le> ?x" using x0 a0 by simp
  have hi: "?x \<le> 2147483647" using Cons.prems(5) s0 by simp
  have step: "award_xp now users uid a = Inr (?res, ?users1)"
    using Cons.prems(1,2) lo hi by (rule award_xp_ok)
  have f1: "find (\<lambda>r. u_id r = uid) ?users1 = Some ?row1"
    using Cons.prems(1) by (rule set_xp_level_find)
  have c1: "list_all users_check ?users1"
    using Cons.prems(2) lo calculateLevel_ge_1 by (rule set_xp_level_check)
  have l1: "u_current_level ?row1 = calculateLevel (u_xp ?row1)" by simp
  have h1: "u_xp ?row1 + sum_list amounts \<le> 2147483647" using Cons.prems(5) by (simp add: add.assoc)
  have sched: "sequential_schedule ?k (length (a # amounts))
                 = ?k # ?k # sequential_schedule (length (done @ [Returned (Inr ?res)])) (length amounts)"
    by (simp add: sequential_schedule_Suc)
  have two: "run_schedule now (?k # ?k # rest) (users, done @ map (Pending uid) (a # amounts))
        = run_schedule now rest (?users1, (done @ [Returned (Inr ?res)]) @ map (Pending uid) amounts)" for rest
    using step by (simp add: award_xp_def nth_append list_update_append)
  from Cons.IH[OF f1 c1 l1 r0 h1, of "done @ [Returned (Inr ?res)]"]
  obtain users' finished where
    run: "run_schedule now (sequential_schedule (length (done @ [Returned (Inr ?res)])) (length amounts))
            (?users1, (done @ [Returned (Inr ?res)]) @ map (Pending uid) amounts)
          = (users', (done @ [Returned (Inr ?res)]) @ finished)"
    and len: "length finished = length amounts"
    and ret: "\<forall>c \<in> set finished. \<exists>res. c = Returned (Inr res)"
    and sel: "select_xp_level users' uid
               = Some (u_xp ?row1 + sum_list amounts, calculateLevel (u_xp ?row1 + sum_list amounts))"
    by blast
  have "run_schedule now (sequential_schedule ?k (length (a # amounts)))
          (users, done @ map (Pending uid) (a # amounts)) = (users', done @ (Returned (Inr ?res) # finished))"
    using run by (simp only: sched two) simp
  moreover have "length (Returned (Inr ?res) # finished) = length (a # amounts)" using len by simp
  moreover have "\<forall>c \<in> set (Returned (Inr ?res) # finished). \<exists>res. c = Returned (Inr res)"
    using ret by simp
  moreover have "select_xp_level users' uid
       = Some (u_xp row + sum_list (a # amounts), calculateLevel (u_xp row + sum_list (a # amounts)))"
    using sel by (simp add: add.assoc)
  ultimately show ?case by blast
qed

text \<open>
  C8, as the code has it. When the calls on one account (whose stored level is the
  level of its points, in a table that satisfies its CHECK constraints) run one after
  the other, each through its SELECT and its UPDATE before the next starts, with
  non-negative amounts and a total that fits INTEGER, every call returns a result and
  the account ends with the initial points plus the sum of the amounts, at the level
  of that total. Nothing of the kind holds when the statements of two calls interleave.
\<close>

theorem award_xp_sequential_total:
  assumes "find (\<lambda>r. u_id r = p_user_id) users = Some row"
      and "list_all users_check users"
      and "u_current_level row = calculateLevel (u_xp row)"
      and "\<forall>a \<in> set amounts. 0 \<le> a"
      and "u_xp row + sum_list amounts \<le> 2147483647"
  shows "\<exists>users' finished.
           run_schedule now (sequential_schedule 0 (length amounts))
               (users, map (Pending p_user_id) amounts) = (users', finished)
           \<and> length finished = length amounts
           \<and> (\<forall>c \<in> set finished. \<exists>res. c = Returned (Inr res))
           \<and> select_xp_level users' p_user_id
               = Some (u_xp row + sum_list amounts, calculateLevel (u_xp row + sum_list amounts))"
  using run_sequential[OF assms, of now "[]"] by simp

theorem award_xp_sequential_total_witness:
  "\<exists>users' finished.
     run_schedule 9 (sequential_schedule 0 2)
       ([\<lparr>u_id = ''A'', u_xp = 0, u_streak = 0, u_current_level = 1,
           u_created_at = 1, u_updated_at = 1\<rparr>], [Pending ''A'' 10, Pending ''A'' 10])
       = (users', finished)
     \<and> length finished = 2
     \<and> (\<forall>c \<in> set finished. \<exists>res. c = Returned (Inr res))
     \<and> select_xp_level users' ''A'' = Some (20, 1)"
  using award_xp_sequential_total[of "''A''"
      "[\<lparr>u_id = ''A'', u_xp = 0, u_streak = 0, u_current_level = 1,
         u_created_at = 1, u_updated_at = 1\<rparr>]"
      "\<lparr>u_id = ''A'', u_xp = 0, u_streak = 0, u_current_level = 1,
         u_created_at = 1, u_updated_at = 1\<rparr>" "[10, 10]" 9]
  by (simp add: users_check_def calculateLevel_values numeral_2_eq_2)

text \<open>
  The claim as stated fails: two calls awarding 10 points each to an account with 0
  points, both running their SELECT before either runs its UPDATE, both return 10 and
  leave the account with 10 points, not 20.
\<close>

theorem award_xp_lost_update_counterexample:
  "run_schedule 9 [0, 1, 0, 1]
       ([\<lparr>u_id = ''A'', u_xp = 0, u_streak = 0, u_current_level = 1,
           u_created_at = 1, u_updated_at = 1\<rparr>], [Pending ''A'' 10, Pending ''A'' 10])
     = ([\<lparr>u_id = ''A'', u_xp = 10, u_streak = 0, u_current_level = 1,
           u_created_at = 1, u_updated_at = 9\<rparr>],
        [Returned (Inr \<lparr>new_xp = Some 10, new_level = Some 1, leveled_up = Some False\<rparr>),
         Returned (Inr \<lparr>new_xp = Some 10, new_level = Some 1, leveled_up = Some False\<rparr>)])"
  by code_simp

section \<open>Badge awards\<close>

lemma award_count_zero_iff:
  "award_count user_badges user_id badge_id = 0
     \<longleftrightarrow> (user_id, badge_id) \<notin> set (map (\<lambda>r. (ub_user_id r, ub_badge_id r)) user_badges)"
  by (induction user_badges) (auto simp: award_count_def)

lemma award_count_append:
  "award_count (xs @ [r]) user_id badge_id
     = award_count xs user_id badge_id
       + (if ub_user_id r = user_id \<and> ub_badge_id r = badge_id then 1 else 0)"
  by (simp add: award_count_def)

lemma insert_user_badge_count:
  assumes "\<forall>u b. award_count user_badges u b \<le> 1"
  shows "award_count (snd (insert_user_badge user_badges new_row)) u b \<le> 1"
proof (cases "(ub_user_id new_row, ub_badge_id new_row)
                \<in> set (map (\<lambda>r. (ub_user_id r, ub_badge_id r)) user_badges)")
  case True
  then show ?thesis using assms by (simp add: insert_user_badge_def)
next
  case False
  then have z: "award_count user_badges (ub_user_id new_row) (ub_badge_id new_row) = 0"
    by (simp only: award_count_zero_iff not_False_eq_True)
  show ?thesis
  proof (cases "ub_user_id new_row = u \<and> ub_badge_id new_row = b")
    case True
    with z False show ?thesis by (simp add: insert_user_badge_def award_count_append)
  next
    case no: False
    with False assms show ?thesis by (auto simp: insert_user_badge_def award_count_append)
  qed
qed

lemma insert_user_badge_existing:
  "0 < award_count user_badges (ub_user_id new_row) (ub_badge_id new_row) \<Longrightarrow>
   insert_user_badge user_badges new_row = (Some UniqueViolation, user_badges)"
  using award_count_zero_iff[of user_badges "ub_user_id new_row" "ub_badge_id new_row"]
  by (auto simp: insert_user_badge_def)

lemma checkBadgeEligibility_loop_count:
  assumes "\<forall>u b. award_count user_badges u b \<le> 1"
  shows "\<forall>u b. award_count (snd (checkBadgeEligibility_loop now userId user allBadges user_badges newBadges)) u b \<le> 1"
  using assms
proof (induction allBadges arbitrary: user_badges newBadges)
  case Nil
  then show ?case by simp
next
  case (Cons b allBadges)
  have ins: "\<forall>u b'. award_count (snd (insert_user_badge user_badges
                     \<lparr>ub_user_id = userId, ub_badge_id = b_id b, ub_earned_at = now\<rparr>)) u b' \<le> 1"
    using Cons.prems insert_user_badge_count by blast
  show ?case
    using Cons.IH[OF Cons.prems] Cons.IH[OF ins] by (simp add: Let_def)
qed

text \<open>
  C5. In a \<open>user_badges\<close> table that holds at most one award per (account, badge)
  pair, as the empty table does, an INSERT and a whole run of \<open>checkBadgeEligibility\<close>
  leave at most one award per pair, whatever snapshot of the user's awards the run
  started from. An INSERT for a pair that already has an award is refused by the primary
  key and leaves the table as it was; \<open>checkBadgeEligibility\<close>, when its snapshot
  missed that award, goes on as if the INSERT had succeeded: the badge is reported and
  the rest of the catalog is evaluated on the unchanged table.
\<close>

theorem badge_award_at_most_once:
  assumes "\<forall>u b. award_count user_badges u b \<le> 1"
  shows "(\<forall>u b. award_count [] u b \<le> 1)
       \<and> (\<forall>u b. award_count (snd (insert_user_badge user_badges new_row)) u b \<le> 1)
       \<and> (\<forall>u b. award_count
                    (snd (checkBadgeEligibility now userId user allBadges user_badges)) u b \<le> 1)
       \<and> (0 < award_count user_badges (ub_user_id new_row) (ub_badge_id new_row) \<longrightarrow>
             insert_user_badge user_badges new_row = (Some UniqueViolation, user_badges))
       \<and> (\<not> list_ex (\<lambda>ub. ub_badge_id ub = b_id bdg) (uv_user_badges user)
            \<and> evaluateCriteria (b_criteria bdg) user
            \<and> 0 < award_count user_badges userId (b_id bdg) \<longrightarrow>
             checkBadgeEligibility_loop now userId user (bdg # allBadges) user_badges newBadges
               = checkBadgeEligibility_loop now userId user allBadges user_badges (newBadges @ [bdg]))"
proof (intro conjI)
  show "\<forall>u b. award_count [] u b \<le> 1" by (simp add: award_count_def)
  show "\<forall>u b. award_count (snd (insert_user_badge user_badges new_row)) u b \<le> 1"
    using assms insert_user_badge_count by blast
  show "\<forall>u b. award_count (snd (checkBadgeEligibility now userId user allBadges user_badges)) u b \<le> 1"
    unfolding checkBadgeEligibility_def using assms by (rule checkBadgeEligibility_loop_count)
  show "0 < award_count user_badges (ub_user_id new_row) (ub_badge_id new_row) \<longrightarrow>
             insert_user_badge user_badges new_row = (Some UniqueViolation, user_badges)"
    using insert_user_badge_existing by blast
  show "\<not> list_ex (\<lambda>ub. ub_badge_id ub = b_id bdg) (uv_user_badges user)
            \<and> evaluateCriteria (b_criteria bdg) user
            \<and> 0 < award_count user_badges userId (b_id bdg) \<longrightarrow>
             checkBadgeEligibility_loop now userId user (bdg # allBadges) user_badges newBadges
               = checkBadgeEligibility_loop now userId user allBadges user_badges (newBadges @ [bdg])"
    using insert_user_badge_existing[of user_badges
        "\<lparr>ub_user_id = userId, ub_badge_id = b_id bdg, ub_earned_at = now\<rparr>"]
    by (simp add: Let_def)
qed

theorem badge_award_at_most_once_witness:
  "award_count (snd (insert_user_badge
        [\<lparr>ub_user_id = ''A'', ub_badge_id = ''first-lesson'', ub_earned_at = 5\<rparr>]
        \<lparr>ub_user_id = ''A'', ub_badge_id = ''first-lesson'', ub_earned_at = 7\<rparr>))
      ''A'' ''first-lesson'' \<le> 1
   \<and> award_count (snd (checkBadgeEligibility 7 ''A''
        \<lparr>uv_xp = 150, uv_streak = 1, uv_user_lessons = [True], uv_user_badges = []\<rparr>
        [\<lparr>b_id = ''first-lesson'',
           b_criteria = \<lparr>c_type = ''lessons_completed'', c_count = 1\<rparr>\<rparr>]
        [\<lparr>ub_user_id = ''A'', ub_badge_id = ''first-lesson'', ub_earned_at = 5\<rparr>]))
      ''A'' ''first-lesson'' \<le> 1
   \<and> insert_user_badge
        [\<lparr>ub_user_id = ''A'', ub_badge_id = ''first-lesson'', ub_earned_at = 5\<rparr>]
        \<lparr>ub_user_id = ''A'', ub_badge_id = ''first-lesson'', ub_earned_at = 7\<rparr>
      = (Some UniqueViolation,
         [\<lparr>ub_user_id = ''A'', ub_badge_id = ''first-lesson'', ub_earned_at = 5\<rparr>])
   \<and> checkBadgeEligibility_loop 7 ''A''
        \<lparr>uv_xp = 150, uv_streak = 1, uv_user_lessons = [True], uv_user_badges = []\<rparr>
        [\<lparr>b_id = ''first-lesson'',
           b_criteria = \<lparr>c_type = ''lessons_completed'', c_count = 1\<rparr>\<rparr>]
        [\<lparr>ub_user_id = ''A'', ub_badge_id = ''first-lesson'', ub_earned_at = 5\<rparr>] []
      = ([\<lparr>b_id = ''first-lesson'',
            b_criteria = \<lparr>c_type = ''lessons_completed'', c_count = 1\<rparr>\<rparr>],
         [\<lparr>ub_user_id = ''A'', ub_badge_id = ''first-lesson'', ub_earned_at = 5\<rparr>])"
proof -
  have inv: "\<forall>u b. award_count
      [\<lparr>ub_user_id = ''A'', ub_badge_id = ''first-lesson'', ub_earned_at = 5\<rparr>] u b \<le> 1"
    by (simp add: award_count_def)
  show ?thesis
    using badge_award_at_most_once[OF inv,
        of "\<lparr>ub_user_id = ''A'', ub_badge_id = ''first-lesson'', ub_earned_at = 7\<rparr>"
           7 "''A''"
           "\<lparr>uv_xp = 150, uv_streak = 1, uv_user_lessons = [True], uv_user_badges = []\<rparr>"
           "[]"
           "\<lparr>b_id = ''first-lesson'',
              b_criteria = \<lparr>c_type = ''lessons_completed'', c_count = 1\<rparr>\<rparr>"
           "[]"]
    by (simp add: award_count_def evaluateCriteria_def insert_user_badge_def checkBadgeEligibility_def)
qed

section \<open>Ranking\<close>

text \<open>
  C1, on the accounts A, B and C of the example. The route's rank of the caller counts
  the users with strictly more points: it is 2 for A and 2 for B, not 3 for B. The
  \<open>leaderboard\<close> view, which numbers the rows by (points descending, creation time
  ascending), gives C, A, B the ranks 1, 2, 3. The route's page query orders by points
  only, so C, A, B and C, B, A are both answers to it, and on the second the page lists
  B at rank 2 and A at rank 3.
\<close>

theorem leaderboard_rank_with_ties:
  "current_user_rank [acct_A, acct_B, acct_C] ''A'' = 2
   \<and> current_user_rank [acct_A, acct_B, acct_C] ''B'' = 2
   \<and> current_user_rank [acct_A, acct_B, acct_C] ''C'' = 1
   \<and> leaderboard_view [acct_A, acct_B, acct_C] = [(1, ''C''), (2, ''A''), (3, ''B'')]
   \<and> ordered_by_xp_desc [acct_A, acct_B, acct_C] [acct_C, acct_A, acct_B]
   \<and> ordered_by_xp_desc [acct_A, acct_B, acct_C] [acct_C, acct_B, acct_A]
   \<and> leaderboard_page [acct_C, acct_B, acct_A] 1 50 = [(1, ''C''), (2, ''B''), (3, ''A'')]"
proof (intro conjI)
  show "current_user_rank [acct_A, acct_B, acct_C] ''A'' = 2"
    by (simp add: current_user_rank_def acct_A_def acct_B_def acct_C_def)
  show "current_user_rank [acct_A, acct_B, acct_C] ''B'' = 2"
    by (simp add: current_user_rank_def acct_A_def acct_B_def acct_C_def)
  show "current_user_rank [acct_A, acct_B, acct_C] ''C'' = 1"
    by (simp add: current_user_rank_def acct_A_def acct_B_def acct_C_def)
  show "leaderboard_view [acct_A, acct_B, acct_C] = [(1, ''C''), (2, ''A''), (3, ''B'')]"
    by (simp add: leaderboard_view_def acct_A_def acct_B_def acct_C_def)
  show "ordered_by_xp_desc [acct_A, acct_B, acct_C] [acct_C, acct_A, acct_B]"
    by (auto simp: ordered_by_xp_desc_def acct_A_def acct_B_def acct_C_def)
  show "ordered_by_xp_desc [acct_A, acct_B, acct_C] [acct_C, acct_B, acct_A]"
    by (auto simp: ordered_by_xp_desc_def acct_A_def acct_B_def acct_C_def)
  show "leaderboard_page [acct_C, acct_B, acct_A] 1 50 = [(1, ''C''), (2, ''B''), (3, ''A'')]"
    by (simp add: leaderboard_page_def acct_A_def acct_B_def acct_C_def)
qed

end
